theory Spec2Isabelle
  imports Main "HOL-Library.Word"
begin

section \<open>Outcomes of an asynchronous call\<close>

text \<open>
  An awaited call of the application either resolves to a value, rejects with an error, or
  ends the whole process (\<^verbatim>\<open>process.exit\<close>). An error is recorded by the text that
  \<^verbatim>\<open>String(err)\<close> gives for it.
\<close>

datatype 'a completion = Returns 'a | Throws string | Exits nat

section \<open>Documents, the process state and the libraries' answers\<close>

text \<open>
  The fields of a user document that the handlers read or write. \<open>doc_id\<close> is the
  document's \<^verbatim>\<open>_id\<close>.
\<close>

record user_doc =
  doc_id :: string
  username :: string
  email :: string
  password :: string
  isVerified :: bool
  isAcceptingMessage :: bool

text \<open>
  \<open>isConnected\<close> is the module-level \<^verbatim>\<open>connection.isConnected?: number\<close> of the
  connection helper, \<open>console\<close> the lines written by \<^verbatim>\<open>console.log\<close>, \<open>users\<close> the
  user collection in its natural order. \<open>connect_calls\<close> counts the calls of
  \<^verbatim>\<open>mongoose.connect\<close> made so far; the code does not keep it, it is there to state
  how many connections were opened.
\<close>

record world =
  isConnected :: "nat option"
  connect_calls :: nat
  console :: "string list"
  users :: "user_doc list"

text \<open>
  What \<^verbatim>\<open>mongoose.connect\<close> does when it is called: it resolves to an object whose
  \<^verbatim>\<open>connections\<close> array holds the given \<^verbatim>\<open>readyState\<close> numbers, or it rejects.
\<close>

datatype connect_outcome = Resolves "nat list" | Rejects string

text \<open>
  The answers of the environment during one call of a handler: the environment variable,
  the behaviour of \<^verbatim>\<open>mongoose.connect\<close> on a connection string, whether the one
  database query of the handler rejects (and with which error), and \<^verbatim>\<open>bcrypt.compare\<close>,
  which resolves to a boolean or rejects.
\<close>

record env =
  MONGO_DB_URI :: "string option"
  mongoose_connect :: "string \<Rightarrow> connect_outcome"
  query_rejects :: "string option"
  bcrypt_compare :: "string \<Rightarrow> string \<Rightarrow> string + bool"

section \<open>The connection helper\<close>

text \<open>JavaScript truthiness of an optional number: \<^verbatim>\<open>undefined\<close> and \<^verbatim>\<open>0\<close> are falsy.\<close>

fun truthy :: "nat option \<Rightarrow> bool" where
  "truthy None = False"
| "truthy (Some n) = (n \<noteq> 0)"

text \<open>\<^verbatim>\<open>process.env.MONGO_DB_URI || ""\<close>\<close>

definition connection_string :: "env \<Rightarrow> string" where
  "connection_string e = (case MONGO_DB_URI e of None \<Rightarrow> [] | Some u \<Rightarrow> u)"

text \<open>
  \<^verbatim>\<open>dbConnect\<close>. With a truthy flag it logs and returns. Otherwise it calls
  \<^verbatim>\<open>mongoose.connect\<close> inside \<^verbatim>\<open>try\<close>; reading \<^verbatim>\<open>db.connections[0].readyState\<close>
  of an empty array is a \<^verbatim>\<open>TypeError\<close> inside the same \<^verbatim>\<open>try\<close>. The \<^verbatim>\<open>catch\<close>
  branch logs and calls \<^verbatim>\<open>process.exit(1)\<close>.
\<close>

definition dbConnect :: "env \<Rightarrow> world \<Rightarrow> unit completion \<times> world" where
  "dbConnect e w =
     (if truthy (isConnected w)
      then (Returns (), w\<lparr>console := console w @ [''Already connected to a database'']\<rparr>)
      else
        (let w1 = w\<lparr>connect_calls := connect_calls w + 1\<rparr> in
         case mongoose_connect e (connection_string e) of
           Rejects err \<Rightarrow>
             (Exits 1, w1\<lparr>console := console w1 @ [''db connection failed '' @ err]\<rparr>)
         | Resolves [] \<Rightarrow>
             (Exits 1, w1\<lparr>console := console w1 @
                [''db connection failed TypeError: Cannot read properties of undefined'']\<rparr>)
         | Resolves (readyState # _) \<Rightarrow>
             (Returns (), w1\<lparr>isConnected := Some readyState,
                              console := console w1 @ [''Db connected succesfully'']\<rparr>)))"

text \<open>
  \<^verbatim>\<open>dbConnect\<close> is an \<^verbatim>\<open>async\<close> function with one \<^verbatim>\<open>await\<close>, so a call runs in
  two parts and other calls can run between them. The first part tests the flag and, when
  it is falsy, calls \<^verbatim>\<open>mongoose.connect\<close> and suspends on the promise. The second part
  runs when that promise settles: it writes the flag, or logs and exits.
\<close>

datatype started = Finished | Awaiting connect_outcome

definition dbConnect_begin :: "env \<Rightarrow> world \<Rightarrow> started \<times> world" where
  "dbConnect_begin e w =
     (if truthy (isConnected w)
      then (Finished, w\<lparr>console := console w @ [''Already connected to a database'']\<rparr>)
      else (Awaiting (mongoose_connect e (connection_string e)),
            w\<lparr>connect_calls := connect_calls w + 1\<rparr>))"

definition dbConnect_resume :: "connect_outcome \<Rightarrow> world \<Rightarrow> unit completion \<times> world" where
  "dbConnect_resume outcome w =
     (case outcome of
        Rejects err \<Rightarrow>
          (Exits 1, w\<lparr>console := console w @ [''db connection failed '' @ err]\<rparr>)
      | Resolves [] \<Rightarrow>
          (Exits 1, w\<lparr>console := console w @
             [''db connection failed TypeError: Cannot read properties of undefined'']\<rparr>)
      | Resolves (readyState # _) \<Rightarrow>
          (Returns (), w\<lparr>isConnected := Some readyState,
                          console := console w @ [''Db connected succesfully'']\<rparr>))"

text \<open>
  What happens in one process over time: a new call of \<^verbatim>\<open>dbConnect\<close> starts and runs
  its first part (\<open>Call\<close>), or the connect promise of the suspended call at the given
  position settles and that call runs its second part (\<open>Settle\<close>; nothing happens when no
  call is suspended at that position). The suspended calls are kept, oldest first, by the
  outcome their promise will have. After \<^verbatim>\<open>process.exit\<close> nothing more runs.
\<close>

datatype event = Call env | Settle nat

fun dbConnect_run ::
  "event list \<Rightarrow> connect_outcome list \<Rightarrow> world \<Rightarrow>
     unit completion \<times> connect_outcome list \<times> world" where
  "dbConnect_run [] pending w = (Returns (), pending, w)"
| "dbConnect_run (Call e # evs) pending w =
     (case dbConnect_begin e w of
        (Finished, w1) \<Rightarrow> dbConnect_run evs pending w1
      | (Awaiting outcome, w1) \<Rightarrow> dbConnect_run evs (pending @ [outcome]) w1)"
| "dbConnect_run (Settle i # evs) pending w =
     (if i < length pending
      then
        (case dbConnect_resume (pending ! i) w of
           (Returns _, w1) \<Rightarrow> dbConnect_run evs (take i pending @ drop (Suc i) pending) w1
         | (Throws m, w1) \<Rightarrow> (Throws m, pending, w1)
         | (Exits c, w1) \<Rightarrow> (Exits c, pending, w1))
      else dbConnect_run evs pending w)"

text \<open>Calls one at a time: each call's connect settles before the next call starts.\<close>

fun one_at_a_time :: "env list \<Rightarrow> event list" where
  "one_at_a_time [] = []"
| "one_at_a_time (e # es) = Call e # Settle 0 # one_at_a_time es"

text \<open>
  A resolved \<^verbatim>\<open>mongoose.connect\<close> reports an established connection: the first
  connection's \<^verbatim>\<open>readyState\<close> is not \<^verbatim>\<open>0\<close> (the library reports \<^verbatim>\<open>1\<close>, connected).
\<close>

definition reports_established :: "env \<Rightarrow> bool" where
  "reports_established e =
     (case mongoose_connect e (connection_string e) of
        Resolves (readyState # _) \<Rightarrow> readyState \<noteq> 0
      | _ \<Rightarrow> True)"

section \<open>The document mapper's queries\<close>

text \<open>
  The three queries of the document mapper that the handlers call, on the collection as a
  list: \<^verbatim>\<open>findOne\<close> resolves to the first document that satisfies the filter or to
  \<^verbatim>\<open>null\<close>; \<^verbatim>\<open>findById\<close> filters on \<^verbatim>\<open>_id\<close>; \<^verbatim>\<open>findByIdAndUpdate\<close> with
  \<^verbatim>\<open>{new: true}\<close> sets the field in that document and resolves to the updated document.
  Each rejects, changing nothing, when the environment says so.
\<close>

definition findOne ::
  "string option \<Rightarrow> (user_doc \<Rightarrow> bool) \<Rightarrow> user_doc list \<Rightarrow> string + user_doc option" where
  "findOne rej p docs = (case rej of Some r \<Rightarrow> Inl r | None \<Rightarrow> Inr (find p docs))"

definition findById ::
  "string option \<Rightarrow> string \<Rightarrow> user_doc list \<Rightarrow> string + user_doc option" where
  "findById rej i docs = findOne rej (\<lambda>d. doc_id d = i) docs"

fun update_first :: "('a \<Rightarrow> bool) \<Rightarrow> ('a \<Rightarrow> 'a) \<Rightarrow> 'a list \<Rightarrow> 'a list" where
  "update_first p f [] = []"
| "update_first p f (d # ds) = (if p d then f d # ds else d # update_first p f ds)"

definition findByIdAndUpdate ::
  "string option \<Rightarrow> string \<Rightarrow> bool \<Rightarrow> user_doc list \<Rightarrow>
     string + (user_doc option \<times> user_doc list)" where
  "findByIdAndUpdate rej i b docs =
     (case rej of
        Some r \<Rightarrow> Inl r
      | None \<Rightarrow>
          Inr (map_option (\<lambda>d. d\<lparr>isAcceptingMessage := b\<rparr>) (find (\<lambda>d. doc_id d = i) docs),
               update_first (\<lambda>d. doc_id d = i) (\<lambda>d. d\<lparr>isAcceptingMessage := b\<rparr>) docs))"

section \<open>The accept-messages handlers\<close>

text \<open>
  The session that \<^verbatim>\<open>getServerSession\<close> resolves to (\<^verbatim>\<open>null\<close> is \<open>None\<close>); \<open>u_id\<close>
  is \<^verbatim>\<open>session.user._id\<close>.
\<close>

record session_user =
  u_id :: string

record session =
  user :: "session_user option"

text \<open>\<^verbatim>\<open>session?.user\<close>\<close>

definition session_user_of :: "session option \<Rightarrow> session_user option" where
  "session_user_of s = (case s of None \<Rightarrow> None | Some x \<Rightarrow> user x)"

text \<open>The status and the JSON body of a response; a key that is absent is \<open>None\<close>.\<close>

record response =
  status :: nat
  success :: bool
  message :: "string option"
  updatedUser :: "user_doc option"
  isAcceptingMessages :: "bool option"

definition json_message :: "nat \<Rightarrow> bool \<Rightarrow> string \<Rightarrow> response" where
  "json_message st ok msg =
     \<lparr>status = st, success = ok, message = Some msg, updatedUser = None,
      isAcceptingMessages = None\<rparr>"

text \<open>
  \<^verbatim>\<open>POST\<close>. The body argument is what \<^verbatim>\<open>req.json()\<close> does: it rejects (\<open>Inl\<close>), or
  resolves to \<^verbatim>\<open>{acceptMessages: b}\<close> (\<open>Inr b\<close>). The read is outside the \<^verbatim>\<open>try\<close>,
  so its rejection leaves the handler.
\<close>

definition POST ::
  "env \<Rightarrow> session option \<Rightarrow> string + bool \<Rightarrow> world \<Rightarrow> response completion \<times> world" where
  "POST e sess body w =
     (case dbConnect e w of
        (Exits c, w1) \<Rightarrow> (Exits c, w1)
      | (Throws m, w1) \<Rightarrow> (Throws m, w1)
      | (Returns _, w1) \<Rightarrow>
          (case session_user_of sess of
             None \<Rightarrow> (Returns (json_message 401 False ''Not Authenticated''), w1)
           | Some u \<Rightarrow>
               (case body of
                  Inl err \<Rightarrow> (Throws err, w1)
                | Inr acceptMessages \<Rightarrow>
                    (case findByIdAndUpdate (query_rejects e) (u_id u) acceptMessages (users w1) of
                       Inl err \<Rightarrow>
                         (Returns (json_message 500 False
                            ''Failed to update user status to accept messages''), w1)
                     | Inr (None, docs) \<Rightarrow>
                         (Returns (json_message 401 False
                            ''Failed to update user status to accept messages''),
                          w1\<lparr>users := docs\<rparr>)
                     | Inr (Some updated, docs) \<Rightarrow>
                         (Returns \<lparr>status = 200, success = True,
                                   message = Some ''Updated user status to accept messages'',
                                   updatedUser = Some updated, isAcceptingMessages = None\<rparr>,
                          w1\<lparr>users := docs\<rparr>)))))"

text \<open>\<^verbatim>\<open>GET\<close>. The request argument is not read by the handler.\<close>

definition GET :: "env \<Rightarrow> session option \<Rightarrow> world \<Rightarrow> response completion \<times> world" where
  "GET e sess w =
     (case dbConnect e w of
        (Exits c, w1) \<Rightarrow> (Exits c, w1)
      | (Throws m, w1) \<Rightarrow> (Throws m, w1)
      | (Returns _, w1) \<Rightarrow>
          (case session_user_of sess of
             None \<Rightarrow> (Returns (json_message 401 False ''Not Authenticated''), w1)
           | Some u \<Rightarrow>
               (case findById (query_rejects e) (u_id u) (users w1) of
                  Inl err \<Rightarrow> (Returns (json_message 500 False ''Failed to found the user''), w1)
                | Inr None \<Rightarrow> (Returns (json_message 500 False ''Failed to found the user''), w1)
                | Inr (Some foundUser) \<Rightarrow>
                    (Returns \<lparr>status = 200, success = True, message = None,
                              updatedUser = None,
                              isAcceptingMessages = Some (isAcceptingMessage foundUser)\<rparr>,
                     w1))))"

section \<open>The credentials provider\<close>

record credentials =
  cred_identifier :: string
  cred_password :: string

text \<open>\<^verbatim>\<open>String(new Error(msg))\<close>\<close>

definition error_text :: "string \<Rightarrow> string" where
  "error_text msg = ''Error: '' @ msg"

text \<open>The filter \<^verbatim>\<open>{$or: [{email: identifier}, {username: identifier}]}\<close>.\<close>

definition by_identifier :: "string \<Rightarrow> user_doc \<Rightarrow> bool" where
  "by_identifier i d = (email d = i \<or> username d = i)"

text \<open>
  \<^verbatim>\<open>authorize\<close>. Whatever is thrown inside the \<^verbatim>\<open>try\<close> is caught and thrown again as
  \<^verbatim>\<open>new Error(err)\<close>, whose message is \<^verbatim>\<open>String(err)\<close>; \<open>Throws\<close> carries that
  message. The call of the connection helper is outside the \<^verbatim>\<open>try\<close>.
\<close>

definition authorize :: "env \<Rightarrow> credentials \<Rightarrow> world \<Rightarrow> user_doc completion \<times> world" where
  "authorize e creds w =
     (case dbConnect e w of
        (Exits c, w1) \<Rightarrow> (Exits c, w1)
      | (Throws m, w1) \<Rightarrow> (Throws m, w1)
      | (Returns _, w1) \<Rightarrow>
          (case findOne (query_rejects e) (by_identifier (cred_identifier creds)) (users w1) of
             Inl err \<Rightarrow> (Throws err, w1)
           | Inr None \<Rightarrow>
               (Throws (error_text ''User not found with this email/username''), w1)
           | Inr (Some u) \<Rightarrow>
               (if \<not> isVerified u
                then (Throws (error_text ''Please verify your account first''), w1)
                else
                  (case bcrypt_compare e (cred_password creds) (password u) of
                     Inl err \<Rightarrow> (Throws err, w1)
                   | Inr isPassCorrect \<Rightarrow>
                       (if isPassCorrect then (Returns u, w1)
                        else (Throws (error_text ''Incorrect Password''), w1))))))"

section \<open>The middleware\<close>

text \<open>
  A URL by its origin and its path. \<^verbatim>\<open>new URL(path, base)\<close> with an absolute path keeps
  the origin of the base and drops its path, query and fragment.
\<close>

record url =
  origin :: string
  pathname :: string

definition new_URL :: "string \<Rightarrow> url \<Rightarrow> url" where
  "new_URL path base = \<lparr>origin = origin base, pathname = path\<rparr>"

definition startsWith :: "string \<Rightarrow> string \<Rightarrow> bool" where
  "startsWith s p = (take (length p) s = p)"

datatype next_response = NextResponse_redirect url | NextResponse_next

text \<open>
  \<^verbatim>\<open>middleware\<close>. The first argument is what \<^verbatim>\<open>getToken\<close> resolves to (a token object,
  always truthy, or \<^verbatim>\<open>null\<close>), the second the request's URL.
\<close>

definition middleware :: "'t option \<Rightarrow> url \<Rightarrow> next_response" where
  "middleware token u =
     (if token \<noteq> None \<and>
         (startsWith (pathname u) ''/sign-in'' \<or>
          startsWith (pathname u) ''/sign-up'' \<or>
          startsWith (pathname u) ''/verify'' \<or>
          startsWith (pathname u) ''/'')
      then NextResponse_redirect (new_URL ''/dashboard'' u)
      else if token = None \<and> startsWith (pathname u) ''/dashboard''
      then NextResponse_redirect (new_URL ''/sign-in'' u)
      else NextResponse_next)"

section \<open>The message schema\<close>

text \<open>
  A JavaScript string is a sequence of UTF-16 code units, and \<^verbatim>\<open>length\<close> counts them.
\<close>

type_synonym js_string = "16 word list"

datatype js_value =
  JUndefined | JNull | JBoolean bool | JNumber int | JString js_string
  | JObject "(string \<times> js_value) list"

text \<open>
  The part of the validation library that the schema uses. A string schema is the list of
  its checks in the order they were added; parsing gives the list of issues, and a value is
  accepted when there is none.
\<close>

datatype string_check = Min nat string | Max nat string

type_synonym zod_string = "string_check list"

definition z_string :: zod_string where
  "z_string = []"

definition z_min :: "nat \<Rightarrow> string \<Rightarrow> zod_string \<Rightarrow> zod_string" where
  "z_min n msg sch = sch @ [Min n msg]"

definition z_max :: "nat \<Rightarrow> string \<Rightarrow> zod_string \<Rightarrow> zod_string" where
  "z_max n msg sch = sch @ [Max n msg]"

fun check_issues :: "string_check \<Rightarrow> js_string \<Rightarrow> string list" where
  "check_issues (Min n msg) s = (if length s < n then [msg] else [])"
| "check_issues (Max n msg) s = (if n < length s then [msg] else [])"

definition parse_string :: "zod_string \<Rightarrow> js_value \<Rightarrow> string list" where
  "parse_string sch v =
     (case v of
        JString s \<Rightarrow> concat (map (\<lambda>c. check_issues c s) sch)
      | JUndefined \<Rightarrow> [''Required'']
      | _ \<Rightarrow> [''Expected string''])"

definition property :: "(string \<times> js_value) list \<Rightarrow> string \<Rightarrow> js_value" where
  "property props k = (case map_of props k of None \<Rightarrow> JUndefined | Some x \<Rightarrow> x)"

definition z_object :: "(string \<times> zod_string) list \<Rightarrow> js_value \<Rightarrow> string list" where
  "z_object shape v =
     (case v of
        JObject props \<Rightarrow> concat (map (\<lambda>(k, sch). parse_string sch (property props k)) shape)
      | JUndefined \<Rightarrow> [''Required'']
      | _ \<Rightarrow> [''Expected object''])"

definition messageSchema :: "js_value \<Rightarrow> string list" where
  "messageSchema =
     z_object
       [(''content'',
         z_max 300 ''Message must not be greater than 300 characters''
           (z_min 10 ''Message should be atleast of 10 characters'' z_string))]"

definition accepts :: "(js_value \<Rightarrow> string list) \<Rightarrow> js_value \<Rightarrow> bool" where
  "accepts sch v = (sch v = [])"

section \<open>Concrete scenarios\<close>

text \<open>
  Two user documents, a process that has not connected yet, and four environments: the
  database answers, the database cannot be reached, the connect resolves with a
  \<^verbatim>\<open>readyState\<close> of \<^verbatim>\<open>0\<close>, the database is reached but the query rejects. \<open>plain_compare\<close> stands in for the password comparison in the scenarios.
\<close>

definition alice :: user_doc where
  "alice = \<lparr>doc_id = ''u1'', username = ''alice'', email = ''alice@example.com'',
            password = ''hash-of-wonderland'', isVerified = True,
            isAcceptingMessage = False\<rparr>"

definition bob :: user_doc where
  "bob = \<lparr>doc_id = ''u2'', username = ''bob'', email = ''bob@example.com'',
          password = ''hash-of-builder'', isVerified = False, isAcceptingMessage = True\<rparr>"

definition fresh_process :: world where
  "fresh_process =
     \<lparr>isConnected = None, connect_calls = 0, console = [], users = [alice, bob]\<rparr>"

definition plain_compare :: "string \<Rightarrow> string \<Rightarrow> string + bool" where
  "plain_compare p h = Inr (h = ''hash-of-'' @ p)"

definition database_up :: env where
  "database_up =
     \<lparr>MONGO_DB_URI = Some ''mongodb://localhost/mystry'',
      mongoose_connect = (\<lambda>uri. Resolves [1]),
      query_rejects = None, bcrypt_compare = plain_compare\<rparr>"

definition database_down :: env where
  "database_down =
     \<lparr>MONGO_DB_URI = Some ''mongodb://localhost/mystry'',
      mongoose_connect =
        (\<lambda>uri. Rejects ''MongooseServerSelectionError: connect ECONNREFUSED''),
      query_rejects = None, bcrypt_compare = plain_compare\<rparr>"

definition database_not_ready :: env where
  "database_not_ready = database_up\<lparr>mongoose_connect := (\<lambda>uri. Resolves [0])\<rparr>"

definition query_failing :: env where
  "query_failing =
     database_up\<lparr>query_rejects := Some ''MongoNetworkError: connection closed''\<rparr>"

definition alice_session :: "session option" where
  "alice_session = Some \<lparr>user = Some \<lparr>u_id = ''u1''\<rparr>\<rparr>"

definition alice_login :: credentials where
  "alice_login = \<lparr>cred_identifier = ''alice@example.com'', cred_password = ''wonderland''\<rparr>"

definition alice_wrong_password :: credentials where
  "alice_wrong_password = \<lparr>cred_identifier = ''alice'', cred_password = ''looking-glass''\<rparr>"

definition bob_login :: credentials where
  "bob_login = \<lparr>cred_identifier = ''bob'', cred_password = ''builder''\<rparr>"

definition carol_login :: credentials where
  "carol_login = \<lparr>cred_identifier = ''carol'', cred_password = ''secret''\<rparr>"

definition example_url :: "string \<Rightarrow> url" where
  "example_url p = \<lparr>origin = ''https://example.com'', pathname = p\<rparr>"

section \<open>Properties of the middleware\<close>

text \<open>
  Claim C1. For every request: without a session token and with a path that starts with
  \<^verbatim>\<open>/dashboard\<close> the middleware redirects to \<^verbatim>\<open>/sign-in\<close>; with a session token and a
  path that starts with \<^verbatim>\<open>/sign-in\<close>, \<^verbatim>\<open>/sign-up\<close>, \<^verbatim>\<open>/verify\<close> or \<^verbatim>\<open>/\<close> it
  redirects to \<^verbatim>\<open>/dashboard\<close>; in every other case the request passes through. This
  holds for every request, so in particular for those the matcher selects.
\<close>

theorem middleware_routing:
  "(token = None \<and> startsWith (pathname u) ''/dashboard''
      \<longrightarrow> middleware token u = NextResponse_redirect (new_URL ''/sign-in'' u)) \<and>
   (token \<noteq> None \<and>
      (startsWith (pathname u) ''/sign-in'' \<or> startsWith (pathname u) ''/sign-up'' \<or>
       startsWith (pathname u) ''/verify'' \<or> startsWith (pathname u) ''/'')
      \<longrightarrow> middleware token u = NextResponse_redirect (new_URL ''/dashboard'' u)) \<and>
   (\<not> (token = None \<and> startsWith (pathname u) ''/dashboard'') \<and>
    \<not> (token \<noteq> None \<and>
      (startsWith (pathname u) ''/sign-in'' \<or> startsWith (pathname u) ''/sign-up'' \<or>
       startsWith (pathname u) ''/verify'' \<or> startsWith (pathname u) ''/''))
      \<longrightarrow> middleware token u = NextResponse_next)"
  by (simp add: middleware_def)

theorem middleware_routing_witness:
  "middleware (None :: unit option) (example_url ''/dashboard/inbox'')
     = NextResponse_redirect (example_url ''/sign-in'') \<and>
   middleware (Some ()) (example_url ''/verify/alice'')
     = NextResponse_redirect (example_url ''/dashboard'') \<and>
   middleware (None :: unit option) (example_url ''/sign-up'') = NextResponse_next"
  using middleware_routing [of "None :: unit option" "example_url ''/dashboard/inbox''"]
        middleware_routing [of "Some ()" "example_url ''/verify/alice''"]
        middleware_routing [of "None :: unit option" "example_url ''/sign-up''"]
  by (simp add: startsWith_def new_URL_def example_url_def)

text \<open>
  Claim C9. The path of a request URL always begins with \<^verbatim>\<open>/\<close>, so this holds for
  every request that the matcher hands to the middleware, however the framework compiles
  \<^verbatim>\<open>config.matcher\<close>. For such a request that carries a session token the middleware
  redirects to \<^verbatim>\<open>/dashboard\<close> whatever the path is, also when the path already starts
  with \<^verbatim>\<open>/dashboard\<close>. Consequently the request passes through only when it carries no
  token and its path does not start with \<^verbatim>\<open>/dashboard\<close>.
\<close>

theorem middleware_token_always_redirects:
  "startsWith (pathname u) ''/'' \<Longrightarrow>
     middleware (Some t) u = NextResponse_redirect (new_URL ''/dashboard'' u) \<and>
     (middleware tok u = NextResponse_next \<longrightarrow>
        tok = None \<and> \<not> startsWith (pathname u) ''/dashboard'')"
  by (cases tok) (simp_all add: middleware_def)

theorem middleware_token_always_redirects_witness:
  "startsWith (pathname (example_url ''/dashboard/inbox'')) ''/'' \<and>
   startsWith (pathname (example_url ''/dashboard/inbox'')) ''/dashboard'' \<and>
   middleware (Some ()) (example_url ''/dashboard/inbox'')
     = NextResponse_redirect (example_url ''/dashboard'') \<and>
   startsWith (pathname (example_url ''/sign-in.json'')) ''/'' \<and>
   middleware (Some ()) (example_url ''/sign-in.json'')
     = NextResponse_redirect (example_url ''/dashboard'')"
proof -
  have a: "startsWith (pathname (example_url ''/dashboard/inbox'')) ''/''"
    by (simp add: example_url_def startsWith_def)
  have d: "startsWith (pathname (example_url ''/dashboard/inbox'')) ''/dashboard''"
    by (simp add: example_url_def startsWith_def)
  have b: "startsWith (pathname (example_url ''/sign-in.json'')) ''/''"
    by (simp add: example_url_def startsWith_def)
  show ?thesis
    using a d b
      middleware_token_always_redirects [OF a, of "()" "Some ()"]
      middleware_token_always_redirects [OF b, of "()" "Some ()"]
    by (simp add: new_URL_def example_url_def)
qed

section \<open>Properties of the message schema\<close>

text \<open>
  Claim C8. For every string \<open>s\<close> the message schema accepts the object
  \<^verbatim>\<open>{content: s}\<close> exactly when the length of \<open>s\<close> is at least 10 and at most 300.
\<close>

theorem messageSchema_length:
  "accepts messageSchema (JObject [(''content'', JString s)]) \<longleftrightarrow>
     10 \<le> length s \<and> length s \<le> 300"
  by (auto simp: accepts_def messageSchema_def z_object_def property_def parse_string_def
      z_max_def z_min_def z_string_def)

section \<open>Properties of the connection helper\<close>

lemma dbConnect_users: "users (snd (dbConnect e w)) = users w"
  by (simp add: dbConnect_def Let_def split: connect_outcome.split list.split)

lemma dbConnect_not_Throws: "fst (dbConnect e w) \<noteq> Throws m"
  by (simp add: dbConnect_def Let_def split: connect_outcome.split list.split)

lemma dbConnect_established:
  "truthy (isConnected w) \<Longrightarrow>
     dbConnect e w =
       (Returns (), w\<lparr>console := console w @ [''Already connected to a database'']\<rparr>)"
  by (simp add: dbConnect_def)

text \<open>A call that is not interrupted is the first part followed by the second.\<close>

lemma dbConnect_begin_resume:
  "dbConnect e w =
     (case dbConnect_begin e w of
        (Finished, w1) \<Rightarrow> (Returns (), w1)
      | (Awaiting outcome, w1) \<Rightarrow> dbConnect_resume outcome w1)"
  by (simp add: dbConnect_def dbConnect_begin_def dbConnect_resume_def
      split: connect_outcome.split list.split)

lemma dbConnect_begin_established:
  "truthy (isConnected w) \<Longrightarrow>
     dbConnect_begin e w =
       (Finished, w\<lparr>console := console w @ [''Already connected to a database'']\<rparr>)"
  by (simp add: dbConnect_begin_def)

lemma dbConnect_run_established:
  "truthy (isConnected w) \<Longrightarrow>
     connect_calls (snd (snd (dbConnect_run evs [] w))) = connect_calls w"
proof (induction evs arbitrary: w)
  case Nil
  then show ?case by simp
next
  case (Cons ev evs)
  show ?case
  proof (cases ev)
    case (Call e)
    let ?w' = "w\<lparr>console := console w @ [''Already connected to a database'']\<rparr>"
    have "truthy (isConnected ?w')" using Cons.prems by simp
    then have "connect_calls (snd (snd (dbConnect_run evs [] ?w'))) = connect_calls ?w'"
      by (rule Cons.IH)
    then show ?thesis
      using Call Cons.prems by (simp add: dbConnect_begin_established)
  next
    case (Settle i)
    then show ?thesis
      using Cons.IH [OF Cons.prems] by simp
  qed
qed

lemma dbConnect_run_one_at_a_time:
  "list_all reports_established es \<Longrightarrow>
     connect_calls (snd (snd (dbConnect_run (one_at_a_time es) [] w))) \<le> connect_calls w + 1"
proof (induction es arbitrary: w)
  case Nil
  then show ?case by simp
next
  case (Cons e es)
  show ?case
  proof (cases "truthy (isConnected w)")
    case True
    then show ?thesis
      using dbConnect_run_established [of w "one_at_a_time (e # es)"] by simp
  next
    case False
    let ?w1 = "w\<lparr>connect_calls := connect_calls w + 1\<rparr>"
    have run: "dbConnect_run (one_at_a_time (e # es)) [] w =
        (case dbConnect_resume (mongoose_connect e (connection_string e)) ?w1 of
           (Returns _, w2) \<Rightarrow> dbConnect_run (one_at_a_time es) [] w2
         | (Throws m, w2) \<Rightarrow> (Throws m, [mongoose_connect e (connection_string e)], w2)
         | (Exits c, w2) \<Rightarrow> (Exits c, [mongoose_connect e (connection_string e)], w2))"
      using False by (simp add: dbConnect_begin_def split: prod.split completion.split)
    show ?thesis
    proof (cases "mongoose_connect e (connection_string e)")
      case (Rejects err)
      then show ?thesis unfolding run by (simp add: dbConnect_resume_def)
    next
      case (Resolves states)
      show ?thesis
      proof (cases states)
        case Nil
        then show ?thesis using Resolves unfolding run by (simp add: dbConnect_resume_def)
      next
        case (Cons readyState rest)
        let ?w2 = "?w1\<lparr>isConnected := Some readyState,
                        console := console ?w1 @ [''Db connected succesfully'']\<rparr>"
        have "readyState \<noteq> 0"
          using Cons.prems Resolves Cons by (simp add: reports_established_def)
        then have "truthy (isConnected ?w2)" by simp
        then have "connect_calls (snd (snd (dbConnect_run (one_at_a_time es) [] ?w2)))
            = connect_calls ?w2"
          by (rule dbConnect_run_established)
        then show ?thesis
          using Resolves Cons unfolding run by (simp add: dbConnect_resume_def)
      qed
    qed
  qed
qed

text \<open>
  Claim C5, as the code has it. A call of \<^verbatim>\<open>dbConnect\<close> in a state where the flag is
  truthy (a connection is established) returns without calling \<^verbatim>\<open>mongoose.connect\<close>:
  the count of connect calls and the flag are unchanged, and with no call suspended no
  later calls, in whatever order they start, add a connect call. Over calls made one at a
  time, each finishing before the next starts, and with every connect that resolves
  reporting a \<^verbatim>\<open>readyState\<close> other than \<^verbatim>\<open>0\<close>, \<^verbatim>\<open>mongoose.connect\<close> is called at
  most once.
\<close>

theorem dbConnect_single_connection:
  "(truthy (isConnected w) \<longrightarrow>
      fst (dbConnect e w) = Returns () \<and>
      connect_calls (snd (dbConnect e w)) = connect_calls w \<and>
      isConnected (snd (dbConnect e w)) = isConnected w \<and>
      connect_calls (snd (snd (dbConnect_run evs [] w))) = connect_calls w) \<and>
   (list_all reports_established es \<longrightarrow>
      connect_calls (snd (snd (dbConnect_run (one_at_a_time es) [] w)))
        \<le> connect_calls w + 1)"
  using dbConnect_run_established [of w evs] dbConnect_run_one_at_a_time [of es w]
  by (simp add: dbConnect_established)

theorem dbConnect_single_connection_witness:
  "truthy (isConnected (snd (dbConnect database_up fresh_process))) \<and>
   fst (dbConnect database_down (snd (dbConnect database_up fresh_process))) = Returns () \<and>
   connect_calls (snd (dbConnect database_down (snd (dbConnect database_up fresh_process))))
     = 1 \<and>
   connect_calls
     (snd (snd (dbConnect_run [Call database_down, Call database_up, Settle 0] []
                  (snd (dbConnect database_up fresh_process))))) = 1 \<and>
   list_all reports_established [database_up, database_up, database_down] \<and>
   connect_calls
     (snd (snd (dbConnect_run (one_at_a_time [database_up, database_up, database_down]) []
                  fresh_process))) \<le> 1"
proof -
  let ?w = "snd (dbConnect database_up fresh_process)"
  have c: "truthy (isConnected ?w)" "connect_calls ?w = 1"
    by (simp_all add: dbConnect_def database_up_def fresh_process_def)
  have l: "list_all reports_established [database_up, database_up, database_down]"
    by (simp add: reports_established_def database_up_def database_down_def)
  have k: "connect_calls fresh_process = 0"
    by (simp add: fresh_process_def)
  show ?thesis
    using c l k
      dbConnect_single_connection
        [of ?w database_down "[Call database_down, Call database_up, Settle 0]" "[]"]
      dbConnect_single_connection
        [of fresh_process database_up "[]" "[database_up, database_up, database_down]"]
    by simp
qed

text \<open>
  Claim C5 as stated, at most one connection over any sequence of calls, fails twice. Two
  calls that start before the first connect has settled both find the flag unset and both
  call \<^verbatim>\<open>mongoose.connect\<close>. And two calls made one after the other both call it when
  the first connect resolves with a \<^verbatim>\<open>readyState\<close> of \<^verbatim>\<open>0\<close>, which leaves the flag
  falsy.
\<close>

theorem dbConnect_single_connection_counterexample:
  "connect_calls
     (snd (snd (dbConnect_run [Call database_up, Call database_up, Settle 0, Settle 0] []
                  fresh_process))) = 2 \<and>
   connect_calls
     (snd (snd (dbConnect_run (one_at_a_time [database_not_ready, database_not_ready]) []
                  fresh_process))) = 2"
  by (simp add: dbConnect_begin_def dbConnect_resume_def database_up_def
      database_not_ready_def fresh_process_def)

text \<open>
  Claim C7. When \<^verbatim>\<open>dbConnect\<close> attempts a connection (the flag is not set) and
  \<^verbatim>\<open>mongoose.connect\<close> rejects, \<^verbatim>\<open>dbConnect\<close> does not return: the process exits with
  code 1. The three handlers that begin with \<^verbatim>\<open>await dbConnect()\<close> end there as well, so
  none of them goes on to the database.
\<close>

theorem dbConnect_failed_attempt_exits:
  "\<not> truthy (isConnected w) \<Longrightarrow>
   mongoose_connect e (connection_string e) = Rejects err \<Longrightarrow>
     fst (dbConnect e w) = Exits 1 \<and>
     fst (POST e sess body w) = Exits 1 \<and>
     fst (GET e sess w) = Exits 1 \<and>
     fst (authorize e creds w) = Exits 1"
  by (simp add: dbConnect_def POST_def GET_def authorize_def)

theorem dbConnect_failed_attempt_exits_witness:
  "\<not> truthy (isConnected fresh_process) \<and>
   mongoose_connect database_down (connection_string database_down)
     = Rejects ''MongooseServerSelectionError: connect ECONNREFUSED'' \<and>
   fst (dbConnect database_down fresh_process) = Exits 1 \<and>
   fst (POST database_down None (Inr True) fresh_process) = Exits 1 \<and>
   fst (GET database_down None fresh_process) = Exits 1 \<and>
   fst (authorize database_down \<lparr>cred_identifier = ''alice'', cred_password = ''wonderland''\<rparr>
          fresh_process) = Exits 1"
proof -
  have a: "\<not> truthy (isConnected fresh_process)"
    by (simp add: fresh_process_def)
  have b: "mongoose_connect database_down (connection_string database_down)
     = Rejects ''MongooseServerSelectionError: connect ECONNREFUSED''"
    by (simp add: database_down_def)
  show ?thesis
    using a b dbConnect_failed_attempt_exits [OF a b] by simp
qed

section \<open>Properties of the accept-messages handlers\<close>

lemma find_update_first:
  "(\<And>d. p d \<Longrightarrow> p (f d)) \<Longrightarrow> find p (update_first p f xs) = map_option f (find p xs)"
  by (induction xs) auto

lemma dbConnect_Returns_users: "dbConnect e w = (c, w1) \<Longrightarrow> users w1 = users w"
  using dbConnect_users [of e w] by simp

text \<open>The handlers once the connection helper has returned, and when it has not.\<close>

lemma POST_after_connect:
  "dbConnect e w = (Returns (), w1) \<Longrightarrow>
     POST e sess body w =
       (case session_user_of sess of
          None \<Rightarrow> (Returns (json_message 401 False ''Not Authenticated''), w1)
        | Some u \<Rightarrow>
            (case body of
               Inl err \<Rightarrow> (Throws err, w1)
             | Inr acceptMessages \<Rightarrow>
                 (case findByIdAndUpdate (query_rejects e) (u_id u) acceptMessages (users w) of
                    Inl err \<Rightarrow>
                      (Returns (json_message 500 False
                         ''Failed to update user status to accept messages''), w1)
                  | Inr (None, docs) \<Rightarrow>
                      (Returns (json_message 401 False
                         ''Failed to update user status to accept messages''),
                       w1\<lparr>users := docs\<rparr>)
                  | Inr (Some updated, docs) \<Rightarrow>
                      (Returns \<lparr>status = 200, success = True,
                                message = Some ''Updated user status to accept messages'',
                                updatedUser = Some updated, isAcceptingMessages = None\<rparr>,
                       w1\<lparr>users := docs\<rparr>))))"
  using dbConnect_Returns_users [of e w "Returns ()" w1]
  by (simp add: POST_def split: option.split sum.split)

lemma GET_after_connect:
  "dbConnect e w = (Returns (), w1) \<Longrightarrow>
     GET e sess w =
       (case session_user_of sess of
          None \<Rightarrow> (Returns (json_message 401 False ''Not Authenticated''), w1)
        | Some u \<Rightarrow>
            (case findById (query_rejects e) (u_id u) (users w) of
               Inl err \<Rightarrow> (Returns (json_message 500 False ''Failed to found the user''), w1)
             | Inr None \<Rightarrow> (Returns (json_message 500 False ''Failed to found the user''), w1)
             | Inr (Some foundUser) \<Rightarrow>
                 (Returns \<lparr>status = 200, success = True, message = None,
                           updatedUser = None,
                           isAcceptingMessages = Some (isAcceptingMessage foundUser)\<rparr>,
                  w1)))"
  using dbConnect_Returns_users [of e w "Returns ()" w1]
  by (simp add: GET_def split: option.split sum.split)

lemma POST_no_connect:
  "dbConnect e w = (Exits k, w1) \<Longrightarrow> POST e sess body w = (Exits k, w1)"
  "dbConnect e w = (Throws m, w1) \<Longrightarrow> POST e sess body w = (Throws m, w1)"
  by (simp_all add: POST_def)

lemma POST_unauthenticated:
  "session_user_of sess = None \<Longrightarrow>
     POST e sess body w =
       (case dbConnect e w of
          (Returns _, w1) \<Rightarrow> (Returns (json_message 401 False ''Not Authenticated''), w1)
        | (Throws m, w1) \<Rightarrow> (Throws m, w1)
        | (Exits c, w1) \<Rightarrow> (Exits c, w1))"
  by (simp add: POST_def split: prod.split completion.split)

lemma GET_unauthenticated:
  "session_user_of sess = None \<Longrightarrow>
     GET e sess w =
       (case dbConnect e w of
          (Returns _, w1) \<Rightarrow> (Returns (json_message 401 False ''Not Authenticated''), w1)
        | (Throws m, w1) \<Rightarrow> (Throws m, w1)
        | (Exits c, w1) \<Rightarrow> (Exits c, w1))"
  by (simp add: GET_def split: prod.split completion.split)

text \<open>
  Claim C6, as the code has it. Both handlers await the connection helper before they look
  at the session. When the helper returns and the session or its user is absent, each
  handler answers with status 401 and a body whose \<^verbatim>\<open>success\<close> is \<^verbatim>\<open>false\<close>.
\<close>

theorem unauthenticated_401:
  "fst (dbConnect e w) = Returns () \<Longrightarrow> session_user_of sess = None \<Longrightarrow>
     fst (POST e sess body w) = Returns (json_message 401 False ''Not Authenticated'') \<and>
     fst (GET e sess w) = Returns (json_message 401 False ''Not Authenticated'') \<and>
     status (json_message 401 False ''Not Authenticated'') = 401 \<and>
     success (json_message 401 False ''Not Authenticated'') = False"
  by (cases "dbConnect e w")
     (simp add: POST_unauthenticated GET_unauthenticated json_message_def)

theorem unauthenticated_401_witness:
  "fst (dbConnect database_up fresh_process) = Returns () \<and>
   session_user_of (Some \<lparr>user = None\<rparr>) = None \<and>
   fst (POST database_up (Some \<lparr>user = None\<rparr>) (Inr True) fresh_process)
     = Returns (json_message 401 False ''Not Authenticated'') \<and>
   fst (GET database_up (Some \<lparr>user = None\<rparr>) fresh_process)
     = Returns (json_message 401 False ''Not Authenticated'')"
proof -
  have a: "fst (dbConnect database_up fresh_process) = Returns ()"
    by (simp add: dbConnect_def database_up_def fresh_process_def)
  have b: "session_user_of (Some \<lparr>user = None\<rparr>) = None"
    by (simp add: session_user_of_def)
  show ?thesis
    using a b unauthenticated_401 [OF a b, of "Inr True"] by simp
qed

text \<open>
  Claim C6 as stated, for every request without a session, fails: in a process that has
  not connected yet, with a database that cannot be reached, a request without a session
  gets no 401 from either handler. The connection helper ends the process first.
\<close>

theorem unauthenticated_401_counterexample:
  "session_user_of None = None \<and>
   fst (POST database_down None (Inr True) fresh_process) = Exits 1 \<and>
   fst (GET database_down None fresh_process) = Exits 1"
  by (simp add: session_user_of_def POST_def GET_def dbConnect_def database_down_def
      fresh_process_def)

text \<open>
  Claim C10, as the code has it. A \<^verbatim>\<open>POST\<close> without an authenticated session leaves
  every user document as it was and does not read the body: the outcome is the same for
  any two bodies, also for one whose parsing would reject. When the connection helper
  returns, the answer is the 401 response.
\<close>

theorem POST_unauthenticated_no_update:
  "session_user_of sess = None \<Longrightarrow>
     users (snd (POST e sess body w)) = users w \<and>
     POST e sess body w = POST e sess body' w \<and>
     (fst (dbConnect e w) = Returns () \<longrightarrow>
        fst (POST e sess body w) = Returns (json_message 401 False ''Not Authenticated''))"
proof -
  assume h: "session_user_of sess = None"
  obtain c w1 where d: "dbConnect e w = (c, w1)"
    by (cases "dbConnect e w")
  have u: "users w1 = users w"
    using d by (rule dbConnect_Returns_users)
  show ?thesis
    using h d u by (cases c) (simp_all add: POST_unauthenticated)
qed

theorem POST_unauthenticated_no_update_witness:
  "session_user_of None = None \<and>
   users (snd (POST database_up None (Inl ''SyntaxError: Unexpected end of JSON input'')
                 fresh_process)) = [alice, bob] \<and>
   POST database_up None (Inl ''SyntaxError: Unexpected end of JSON input'') fresh_process
     = POST database_up None (Inr True) fresh_process \<and>
   fst (dbConnect database_up fresh_process) = Returns () \<and>
   fst (POST database_up None (Inl ''SyntaxError: Unexpected end of JSON input'')
          fresh_process) = Returns (json_message 401 False ''Not Authenticated'')"
proof -
  let ?P1 = "POST database_up None (Inl ''SyntaxError: Unexpected end of JSON input'')
               fresh_process"
  let ?P2 = "POST database_up None (Inr True) fresh_process"
  have a: "session_user_of None = None"
    by (simp add: session_user_of_def)
  have b: "fst (dbConnect database_up fresh_process) = Returns ()"
    by (simp add: dbConnect_def database_up_def fresh_process_def)
  have c: "users fresh_process = [alice, bob]"
    by (simp add: fresh_process_def)
  have r1: "users (snd ?P1) = users fresh_process" and r2: "?P1 = ?P2"
    and r3: "fst ?P1 = Returns (json_message 401 False ''Not Authenticated'')"
    using b POST_unauthenticated_no_update [OF a, of database_up
        "Inl ''SyntaxError: Unexpected end of JSON input''" fresh_process "Inr True"]
    by blast+
  have r1': "users (snd ?P1) = [alice, bob]"
    using r1 c by (rule trans)
  show ?thesis
    using a r1' r2 b r3 by blast
qed

text \<open>
  Claim C10 as stated fails in its first part: a \<^verbatim>\<open>POST\<close> whose session has no user,
  in a process that has not connected yet and with a database that cannot be reached, does
  not return 401. The process exits.
\<close>

theorem POST_unauthenticated_no_update_counterexample:
  "session_user_of (Some \<lparr>user = None\<rparr>) = None \<and>
   fst (POST database_down (Some \<lparr>user = None\<rparr>) (Inr False) fresh_process) = Exits 1"
  by (simp add: session_user_of_def POST_def dbConnect_def database_down_def
      fresh_process_def)

text \<open>What a \<^verbatim>\<open>POST\<close> that answers 200 has done.\<close>

lemma POST_200_D:
  assumes "fst (POST e sess (Inr b) w) = Returns r" and "status r = 200"
  shows "\<exists>su d. session_user_of sess = Some su \<and>
           find (\<lambda>d. doc_id d = u_id su) (users w) = Some d \<and>
           users (snd (POST e sess (Inr b) w)) =
             update_first (\<lambda>d. doc_id d = u_id su) (\<lambda>d. d\<lparr>isAcceptingMessage := b\<rparr>)
               (users w)"
proof -
  obtain c w1 where d: "dbConnect e w = (c, w1)"
    by (cases "dbConnect e w")
  show ?thesis
  proof (cases c)
    case (Returns x)
    then have d': "dbConnect e w = (Returns (), w1)" using d by simp
    show ?thesis
      using assms
      by (auto simp: POST_after_connect [OF d'] json_message_def findByIdAndUpdate_def
          split: option.splits sum.splits prod.splits)
  next
    case (Throws m)
    then show ?thesis using d assms by (simp add: POST_no_connect)
  next
    case (Exits k)
    then show ?thesis using d assms by (simp add: POST_no_connect)
  qed
qed

text \<open>
  Claim C4, as the code has it. After a \<^verbatim>\<open>POST\<close> with body \<^verbatim>\<open>{acceptMessages: b}\<close>
  that answered 200, a \<^verbatim>\<open>GET\<close> with the same session on the resulting state answers
  200 with \<^verbatim>\<open>isAcceptingMessages\<close> equal to \<open>b\<close>, when the connection helper returns
  in that \<^verbatim>\<open>GET\<close> and its lookup does not reject.
\<close>

theorem toggle_then_read:
  "fst (POST e1 sess (Inr b) w) = Returns r \<Longrightarrow> status r = 200 \<Longrightarrow>
   fst (dbConnect e2 (snd (POST e1 sess (Inr b) w))) = Returns () \<Longrightarrow>
   query_rejects e2 = None \<Longrightarrow>
     fst (GET e2 sess (snd (POST e1 sess (Inr b) w))) =
       Returns \<lparr>status = 200, success = True, message = None, updatedUser = None,
                isAcceptingMessages = Some b\<rparr>"
proof -
  assume p: "fst (POST e1 sess (Inr b) w) = Returns r" and s: "status r = 200"
    and c: "fst (dbConnect e2 (snd (POST e1 sess (Inr b) w))) = Returns ()"
    and q: "query_rejects e2 = None"
  let ?w' = "snd (POST e1 sess (Inr b) w)"
  obtain su d where su: "session_user_of sess = Some su"
    and f: "find (\<lambda>d. doc_id d = u_id su) (users w) = Some d"
    and u: "users ?w' =
             update_first (\<lambda>d. doc_id d = u_id su) (\<lambda>d. d\<lparr>isAcceptingMessage := b\<rparr>)
               (users w)"
    using POST_200_D [OF p s] by blast
  have "find (\<lambda>d. doc_id d = u_id su) (users ?w') = Some (d\<lparr>isAcceptingMessage := b\<rparr>)"
    unfolding u using f by (simp add: find_update_first)
  then have g: "findById (query_rejects e2) (u_id su) (users ?w')
      = Inr (Some (d\<lparr>isAcceptingMessage := b\<rparr>))"
    using q by (simp add: findById_def findOne_def)
  obtain w2 where d2: "dbConnect e2 ?w' = (Returns (), w2)"
    using c by (cases "dbConnect e2 ?w'") simp
  show ?thesis
    using su g by (simp add: GET_after_connect [OF d2])
qed

lemma POST_alice_accepts:
  "POST database_up alice_session (Inr True) fresh_process =
     (Returns \<lparr>status = 200, success = True,
               message = Some ''Updated user status to accept messages'',
               updatedUser = Some (alice\<lparr>isAcceptingMessage := True\<rparr>),
               isAcceptingMessages = None\<rparr>,
      \<lparr>isConnected = Some 1, connect_calls = 1, console = [''Db connected succesfully''],
       users = [alice\<lparr>isAcceptingMessage := True\<rparr>, bob]\<rparr>)"
  by (simp add: POST_def dbConnect_def database_up_def fresh_process_def alice_session_def
      session_user_of_def findByIdAndUpdate_def connection_string_def alice_def bob_def)

theorem toggle_then_read_witness:
  "fst (POST database_up alice_session (Inr True) fresh_process) =
     Returns \<lparr>status = 200, success = True,
              message = Some ''Updated user status to accept messages'',
              updatedUser = Some (alice\<lparr>isAcceptingMessage := True\<rparr>),
              isAcceptingMessages = None\<rparr> \<and>
   fst (dbConnect database_up (snd (POST database_up alice_session (Inr True) fresh_process)))
     = Returns () \<and>
   query_rejects database_up = None \<and>
   fst (GET database_up alice_session
          (snd (POST database_up alice_session (Inr True) fresh_process))) =
     Returns \<lparr>status = 200, success = True, message = None, updatedUser = None,
              isAcceptingMessages = Some True\<rparr>"
proof -
  let ?r = "\<lparr>status = 200, success = True,
              message = Some ''Updated user status to accept messages'',
              updatedUser = Some (alice\<lparr>isAcceptingMessage := True\<rparr>),
              isAcceptingMessages = None\<rparr>"
  have a: "fst (POST database_up alice_session (Inr True) fresh_process) = Returns ?r"
    by (simp add: POST_alice_accepts)
  have b: "status ?r = 200"
    by simp
  have c: "fst (dbConnect database_up
                  (snd (POST database_up alice_session (Inr True) fresh_process))) = Returns ()"
    by (simp add: POST_alice_accepts dbConnect_def)
  have d: "query_rejects database_up = None"
    by (simp add: database_up_def)
  show ?thesis
    using a c d toggle_then_read [OF a b c d] by blast
qed

text \<open>
  Claim C4 as stated fails: after a \<^verbatim>\<open>POST\<close> that answered 200, a \<^verbatim>\<open>GET\<close> for the
  same user whose lookup rejects answers 500, not 200.
\<close>

theorem toggle_then_read_counterexample:
  "fst (POST database_up alice_session (Inr True) fresh_process) =
     Returns \<lparr>status = 200, success = True,
              message = Some ''Updated user status to accept messages'',
              updatedUser = Some (alice\<lparr>isAcceptingMessage := True\<rparr>),
              isAcceptingMessages = None\<rparr> \<and>
   fst (GET query_failing alice_session
          (snd (POST database_up alice_session (Inr True) fresh_process))) =
     Returns (json_message 500 False ''Failed to found the user'')"
  unfolding POST_alice_accepts
  by (simp add: GET_def dbConnect_def query_failing_def database_up_def
      alice_session_def session_user_of_def findById_def findOne_def json_message_def)

section \<open>Properties of the credentials provider\<close>

lemma authorize_after_connect:
  "dbConnect e w = (Returns (), w1) \<Longrightarrow>
     authorize e creds w =
       (case findOne (query_rejects e) (by_identifier (cred_identifier creds)) (users w) of
          Inl err \<Rightarrow> (Throws err, w1)
        | Inr None \<Rightarrow> (Throws (error_text ''User not found with this email/username''), w1)
        | Inr (Some u) \<Rightarrow>
            (if \<not> isVerified u
             then (Throws (error_text ''Please verify your account first''), w1)
             else
               (case bcrypt_compare e (cred_password creds) (password u) of
                  Inl err \<Rightarrow> (Throws err, w1)
                | Inr isPassCorrect \<Rightarrow>
                    (if isPassCorrect then (Returns u, w1)
                     else (Throws (error_text ''Incorrect Password''), w1)))))"
  using dbConnect_Returns_users [of e w "Returns ()" w1]
  by (simp add: authorize_def)

lemma authorize_no_connect:
  "dbConnect e w = (Exits k, w1) \<Longrightarrow> authorize e creds w = (Exits k, w1)"
  "dbConnect e w = (Throws m, w1) \<Longrightarrow> authorize e creds w = (Throws m, w1)"
  by (simp_all add: authorize_def)

lemma findOne_Some_D:
  "findOne rej p docs = Inr (Some u) \<Longrightarrow> rej = None \<and> u \<in> set docs \<and> p u"
  by (auto simp: findOne_def find_Some_iff split: option.splits)

lemma dbConnect_database_up: "fst (dbConnect database_up fresh_process) = Returns ()"
  by (simp add: dbConnect_def database_up_def fresh_process_def)

text \<open>
  Claim C2, as the code has it. When the connection helper returns, the lookup resolves to
  a user document (the first of the collection whose email or username equals the
  submitted identifier), that document is verified and the password comparison resolves
  to \<^verbatim>\<open>true\<close>, then \<^verbatim>\<open>authorize\<close> returns that document.
\<close>

theorem authorize_valid_login:
  "fst (dbConnect e w) = Returns () \<Longrightarrow>
   findOne (query_rejects e) (by_identifier (cred_identifier creds)) (users w)
     = Inr (Some u) \<Longrightarrow>
   isVerified u \<Longrightarrow>
   bcrypt_compare e (cred_password creds) (password u) = Inr True \<Longrightarrow>
     fst (authorize e creds w) = Returns u \<and>
     u \<in> set (users w) \<and>
     (email u = cred_identifier creds \<or> username u = cred_identifier creds)"
proof -
  assume c: "fst (dbConnect e w) = Returns ()"
    and f: "findOne (query_rejects e) (by_identifier (cred_identifier creds)) (users w)
              = Inr (Some u)"
    and v: "isVerified u"
    and p: "bcrypt_compare e (cred_password creds) (password u) = Inr True"
  obtain w1 where d: "dbConnect e w = (Returns (), w1)"
    using c by (cases "dbConnect e w") simp
  have "fst (authorize e creds w) = Returns u"
    using f v p by (simp add: authorize_after_connect [OF d])
  moreover have "u \<in> set (users w) \<and> by_identifier (cred_identifier creds) u"
    using findOne_Some_D [OF f] by simp
  ultimately show ?thesis
    by (simp add: by_identifier_def)
qed

theorem authorize_valid_login_witness:
  "fst (dbConnect database_up fresh_process) = Returns () \<and>
   findOne (query_rejects database_up) (by_identifier (cred_identifier alice_login))
     (users fresh_process) = Inr (Some alice) \<and>
   isVerified alice \<and>
   bcrypt_compare database_up (cred_password alice_login) (password alice) = Inr True \<and>
   fst (authorize database_up alice_login fresh_process) = Returns alice"
proof -
  have a: "fst (dbConnect database_up fresh_process) = Returns ()"
    by (rule dbConnect_database_up)
  have b: "findOne (query_rejects database_up) (by_identifier (cred_identifier alice_login))
     (users fresh_process) = Inr (Some alice)"
    by (simp add: findOne_def database_up_def by_identifier_def alice_login_def
        fresh_process_def alice_def)
  have c: "isVerified alice"
    by (simp add: alice_def)
  have d: "bcrypt_compare database_up (cred_password alice_login) (password alice) = Inr True"
    by (simp add: database_up_def plain_compare_def alice_login_def alice_def)
  show ?thesis
    using a b c d authorize_valid_login [OF a b c d] by blast
qed

text \<open>
  Claim C2 as stated fails: the collection holds a verified document whose email is the
  submitted identifier and whose hash matches the submitted password, but the process has
  not connected yet and the database cannot be reached. \<^verbatim>\<open>authorize\<close> does not return
  the document; the process exits.
\<close>

theorem authorize_valid_login_counterexample:
  "alice \<in> set (users fresh_process) \<and>
   email alice = cred_identifier alice_login \<and>
   isVerified alice \<and>
   bcrypt_compare database_down (cred_password alice_login) (password alice) = Inr True \<and>
   fst (authorize database_down alice_login fresh_process) = Exits 1 \<and>
   fst (authorize database_down alice_login fresh_process) \<noteq> Returns alice"
  by (simp add: authorize_def dbConnect_def database_down_def fresh_process_def
      alice_login_def alice_def plain_compare_def)

text \<open>
  Claim C3, as the code has it. When no document of the collection matches the submitted
  identifier, or the first that matches is not verified, or the password comparison for it
  does not resolve to \<^verbatim>\<open>true\<close>, then \<^verbatim>\<open>authorize\<close> never returns a user, and it
  throws whenever the connection helper returns.
\<close>

theorem authorize_invalid_login:
  "find (by_identifier (cred_identifier creds)) (users w) = None \<or>
   (\<exists>u. find (by_identifier (cred_identifier creds)) (users w) = Some u \<and>
        (\<not> isVerified u \<or>
         bcrypt_compare e (cred_password creds) (password u) \<noteq> Inr True)) \<Longrightarrow>
     (\<forall>u. fst (authorize e creds w) \<noteq> Returns u) \<and>
     (fst (dbConnect e w) = Returns () \<longrightarrow> (\<exists>m. fst (authorize e creds w) = Throws m))"
proof -
  assume r: "find (by_identifier (cred_identifier creds)) (users w) = None \<or>
   (\<exists>u. find (by_identifier (cred_identifier creds)) (users w) = Some u \<and>
        (\<not> isVerified u \<or>
         bcrypt_compare e (cred_password creds) (password u) \<noteq> Inr True))"
  obtain c w1 where d: "dbConnect e w = (c, w1)"
    by (cases "dbConnect e w")
  show ?thesis
  proof (cases c)
    case (Returns x)
    then have d': "dbConnect e w = (Returns (), w1)" using d by simp
    have "\<exists>m. fst (authorize e creds w) = Throws m"
      using r
      by (auto simp: authorize_after_connect [OF d'] findOne_def
          split: option.splits sum.splits)
    then show ?thesis by auto
  next
    case (Throws m)
    then show ?thesis using d by (simp add: authorize_no_connect)
  next
    case (Exits k)
    then show ?thesis using d by (simp add: authorize_no_connect)
  qed
qed

theorem authorize_invalid_login_witness:
  "find (by_identifier (cred_identifier carol_login)) (users fresh_process) = None \<and>
   find (by_identifier (cred_identifier bob_login)) (users fresh_process) = Some bob \<and>
   \<not> isVerified bob \<and>
   find (by_identifier (cred_identifier alice_wrong_password)) (users fresh_process)
     = Some alice \<and>
   bcrypt_compare database_up (cred_password alice_wrong_password) (password alice)
     = Inr False \<and>
   fst (dbConnect database_up fresh_process) = Returns () \<and>
   fst (authorize database_up carol_login fresh_process) \<noteq> Returns alice \<and>
   fst (authorize database_up bob_login fresh_process) \<noteq> Returns bob \<and>
   fst (authorize database_up alice_wrong_password fresh_process) \<noteq> Returns alice \<and>
   fst (authorize database_up carol_login fresh_process)
     = Throws ''Error: User not found with this email/username'' \<and>
   fst (authorize database_up bob_login fresh_process)
     = Throws ''Error: Please verify your account first'' \<and>
   fst (authorize database_up alice_wrong_password fresh_process)
     = Throws ''Error: Incorrect Password''"
proof -
  have c1: "find (by_identifier (cred_identifier carol_login)) (users fresh_process) = None"
    by (simp add: by_identifier_def carol_login_def fresh_process_def alice_def bob_def)
  have b1: "find (by_identifier (cred_identifier bob_login)) (users fresh_process) = Some bob"
    by (simp add: by_identifier_def bob_login_def fresh_process_def alice_def bob_def)
  have b2: "\<not> isVerified bob"
    by (simp add: bob_def)
  have a1: "find (by_identifier (cred_identifier alice_wrong_password)) (users fresh_process)
     = Some alice"
    by (simp add: by_identifier_def alice_wrong_password_def fresh_process_def alice_def)
  have a2: "bcrypt_compare database_up (cred_password alice_wrong_password) (password alice)
     = Inr False"
    by (simp add: database_up_def plain_compare_def alice_wrong_password_def alice_def)
  have n1: "fst (authorize database_up carol_login fresh_process) \<noteq> Returns alice"
    using c1 authorize_invalid_login [of carol_login fresh_process database_up] by blast
  have n2: "fst (authorize database_up bob_login fresh_process) \<noteq> Returns bob"
    using b1 b2 authorize_invalid_login [of bob_login fresh_process database_up] by blast
  have n3: "fst (authorize database_up alice_wrong_password fresh_process) \<noteq> Returns alice"
    using a1 a2 authorize_invalid_login [of alice_wrong_password fresh_process database_up]
    by auto
  obtain w1 where d: "dbConnect database_up fresh_process = (Returns (), w1)"
    using dbConnect_database_up by (cases "dbConnect database_up fresh_process") simp
  have q: "query_rejects database_up = None"
    by (simp add: database_up_def)
  have t1: "fst (authorize database_up carol_login fresh_process)
     = Throws ''Error: User not found with this email/username''"
    using c1 by (simp add: authorize_after_connect [OF d] findOne_def q error_text_def)
  have t2: "fst (authorize database_up bob_login fresh_process)
     = Throws ''Error: Please verify your account first''"
    using b1 b2 by (simp add: authorize_after_connect [OF d] findOne_def q error_text_def)
  have t3: "fst (authorize database_up alice_wrong_password fresh_process)
     = Throws ''Error: Incorrect Password''"
    using a1 a2
    by (simp add: authorize_after_connect [OF d] findOne_def q error_text_def alice_def)
  show ?thesis
    using c1 b1 b2 a1 a2 dbConnect_database_up n1 n2 n3 t1 t2 t3 by blast
qed

text \<open>
  Claim C3 as stated fails in one part: no document matches the submitted identifier, the
  process has not connected yet and the database cannot be reached. \<^verbatim>\<open>authorize\<close> does
  not throw; the process exits.
\<close>

theorem authorize_invalid_login_counterexample:
  "find (by_identifier (cred_identifier carol_login)) (users fresh_process) = None \<and>
   fst (authorize database_down carol_login fresh_process) = Exits 1"
  by (simp add: authorize_def dbConnect_def database_down_def fresh_process_def
      carol_login_def by_identifier_def alice_def bob_def)

end
